theory Spec2Isabelle
  imports Main "HOL-Library.Sublist"
begin

section \<open>Key tokens and sequence comparison (src/actions/actions.ts, lines 16-63)\<close>

text \<open>
  A key token is a JavaScript string, modelled as a \<open>string\<close> (a list of characters of
  the token; the tokens of this program are ASCII). A key sequence is a list of tokens.
\<close>

type_synonym KeyToken = string

definition controlKeys :: "string list" where
  "controlKeys =
     [''ctrl'', ''alt'', ''shift'', ''esc'', ''delete'', ''left'', ''right'', ''up'', ''down'']"

text \<open>
  JavaScript's \<open>s.indexOf(k)\<close>: the first index at which \<open>k\<close> occurs in \<open>s\<close> as a
  contiguous substring, and \<open>-1\<close> when it occurs nowhere. \<open>indexOfFrom s k i\<close> scans the
  rest \<open>s\<close> of the string, whose first character has index \<open>i\<close>.
\<close>

fun indexOfFrom :: "string \<Rightarrow> string \<Rightarrow> int \<Rightarrow> int" where
  "indexOfFrom [] k i = (if k = [] then i else -1)"
| "indexOfFrom (c # t) k i =
     (if take (length k) (c # t) = k then i else indexOfFrom t k (i + 1))"

definition indexOf :: "string \<Rightarrow> string \<Rightarrow> int" where
  "indexOf s k = indexOfFrom s k 0"

text \<open>The loop \<open>for (const controlKey of controlKeys)\<close> of \<open>containsControlKey\<close>.\<close>

fun containsControlKeyIn :: "string list \<Rightarrow> string \<Rightarrow> bool" where
  "containsControlKeyIn [] s = False"
| "containsControlKeyIn (controlKey # rest) s =
     (if indexOf s controlKey \<noteq> -1 then True else containsControlKeyIn rest s)"

definition containsControlKey :: "string \<Rightarrow> bool" where
  "containsControlKey s = containsControlKeyIn controlKeys s"

definition isSingleNumber :: "string \<Rightarrow> bool" where
  "isSingleNumber s = (length s = 1 \<and> indexOf ''1234567890'' s > -1)"

text \<open>
  The body of the \<open>for\<close> loop of \<open>compareKeypressSequence\<close>; \<open>i\<close> and \<open>j\<close> advance
  together, so the loop walks the two sequences in step. It runs only after the lengths
  were found equal.
\<close>

fun compareLoop :: "KeyToken list \<Rightarrow> KeyToken list \<Rightarrow> bool" where
  "compareLoop (left # one) (right # two) =
     (if left = ''<any>'' then compareLoop one two
      else if right = ''<any>'' then compareLoop one two
      else if left = ''<number>'' \<and> isSingleNumber right then compareLoop one two
      else if right = ''<number>'' \<and> isSingleNumber left then compareLoop one two
      else if left = ''<character>'' \<and> \<not> containsControlKey right then compareLoop one two
      else if right = ''<character>'' \<and> \<not> containsControlKey left then compareLoop one two
      else if left \<noteq> right then False
      else compareLoop one two)"
| "compareLoop _ _ = True"

definition compareKeypressSequence :: "KeyToken list \<Rightarrow> KeyToken list \<Rightarrow> bool" where
  "compareKeypressSequence one two =
     (if length one \<noteq> length two then False else compareLoop one two)"

subsection \<open>The comparison as the specification words it\<close>

text \<open>
  The specification's reading of one position, written independently of the code: a single
  decimal digit is a one-character token whose character is a digit; a control-key token
  is a token that names one of the enumerated control keys, that is, has one of the nine
  names as a contiguous part (\<open><escape>\<close>, \<open><left>\<close>, \<open>ctrl+w\<close>, ...).
\<close>

definition spec_isDecimalDigit :: "KeyToken \<Rightarrow> bool" where
  "spec_isDecimalDigit s = (\<exists>c \<in> set ''0123456789''. s = [c])"

definition spec_isControlKeyToken :: "KeyToken \<Rightarrow> bool" where
  "spec_isControlKeyToken s = (\<exists>k \<in> set controlKeys. sublist k s)"

definition spec_keyMatches :: "KeyToken \<Rightarrow> KeyToken \<Rightarrow> bool" where
  "spec_keyMatches left right =
     (left = ''<any>'' \<or> right = ''<any>''
      \<or> (left = ''<number>'' \<and> spec_isDecimalDigit right)
      \<or> (right = ''<number>'' \<and> spec_isDecimalDigit left)
      \<or> (left = ''<character>'' \<and> \<not> spec_isControlKeyToken right)
      \<or> (right = ''<character>'' \<and> \<not> spec_isControlKeyToken left)
      \<or> left = right)"

section \<open>Session state (the parts of VimState the actions read and write)\<close>

datatype ModeName =
  Normal | Insert | Visual | VisualLine | VisualBlock | VisualBlockInsertMode
  | Replace | SearchInProgressMode

datatype RegisterMode = FigureItOutFromCurrentMode | CharacterWise | LineWise | BlockWise

text \<open>
  A Position is a (line, character) pair of JavaScript numbers; the code adds to and
  subtracts from both, so they are integers here.
\<close>

record Position =
  line :: int
  character :: int

text \<open>The operator classes of the file: every class below \<open>BaseOperator\<close>.\<close>

datatype Operator =
  DeleteOperator | DeleteOperatorVisual | YankOperator | ShiftYankOperatorVisual
  | DeleteOperatorXVisual | ChangeOperatorSVisual | UpperCaseOperator | UpperCaseWithMotion
  | LowerCaseOperator | LowerCaseWithMotion | ChangeOperator | IndentOperator
  | OutdentOperator | YankVisualBlockMode | ToggleCaseOperator | ToggleCaseWithMotion

text \<open>
  The class of an action object. Three classes override \<open>doesActionApply\<close> and
  \<open>couldActionApply\<close>; every operator class is below \<open>BaseOperator\<close>; every other
  class inherits both predicates unchanged and is known by its name. Of the fields of an
  action, the record keeps those the matcher reads or writes.
\<close>

datatype ActionClass =
  CommandNumber | CommandRegister | MoveLineBegin
  | OperatorClass Operator | OtherClass string

record BaseAction =
  actionClass :: ActionClass
  modes :: "ModeName list"
  keys :: "KeyToken list"
  mustBeFirstKey :: bool
  keysPressed :: "KeyToken list"

text \<open>
  \<open>count\<close> is the numeric prefix typed so far, \<open>0\<close> when none was typed: it starts at
  \<open>0\<close> and \<open>CommandNumber.exec\<close> replaces it by \<open>count * 10 + digit\<close>, so it is a natural
  number. \<open>operator\<close> is the pending operator object, if any.
\<close>

record RecordedState =
  count :: nat
  operator :: "Operator option"
  actionsRun :: "BaseAction list"
  actionKeys :: "KeyToken list"

record VimState =
  currentMode :: ModeName
  cursorPosition :: Position
  cursorStartPosition :: Position
  cursorPositionJustBeforeAnythingHappened :: Position
  recordedState :: RecordedState

section \<open>The action registry and the key matcher (actions.ts, lines 88-143 and 286-378)\<close>

text \<open>\<open>this instanceof BaseOperator\<close>.\<close>

fun instanceofBaseOperator :: "BaseAction \<Rightarrow> bool" where
  "instanceofBaseOperator a =
     (case actionClass a of OperatorClass _ \<Rightarrow> True | _ \<Rightarrow> False)"

text \<open>\<open>BaseAction.doesActionApply\<close> and \<open>BaseAction.couldActionApply\<close>.\<close>

definition BaseAction_doesActionApply :: "BaseAction \<Rightarrow> VimState \<Rightarrow> KeyToken list \<Rightarrow> bool" where
  "BaseAction_doesActionApply this vimState keysPressed' =
     (if currentMode vimState \<notin> set (modes this) then False
      else if \<not> compareKeypressSequence (keys this) keysPressed' then False
      else if length (actionsRun (recordedState vimState)) > 0 \<and> mustBeFirstKey this then False
      else if instanceofBaseOperator this \<and> operator (recordedState vimState) \<noteq> None then False
      else True)"

definition BaseAction_couldActionApply :: "BaseAction \<Rightarrow> VimState \<Rightarrow> KeyToken list \<Rightarrow> bool" where
  "BaseAction_couldActionApply this vimState keysPressed' =
     (if currentMode vimState \<notin> set (modes this) then False
      else if \<not> compareKeypressSequence (take (length keysPressed') (keys this)) keysPressed'
        then False
      else if length (actionsRun (recordedState vimState)) > 0 \<and> mustBeFirstKey this then False
      else if instanceofBaseOperator this \<and> operator (recordedState vimState) \<noteq> None then False
      else True)"

text \<open>
  \<open>keysPressed[i]\<close> of JavaScript: \<open>undefined\<close> (here \<open>None\<close>) outside the array.
\<close>

definition keyAt :: "KeyToken list \<Rightarrow> nat \<Rightarrow> KeyToken option" where
  "keyAt ks i = (if i < length ks then Some (ks ! i) else None)"

text \<open>
  The virtual call \<open>action.doesActionApply(vimState, keysPressed)\<close>: the override of the
  object's class. \<open>Register.isValidRegister\<close> belongs to the register store, which is not
  part of these sources, and is the parameter \<open>isValidRegister\<close>; it receives \<open>None\<close>
  when \<open>keysPressed[1]\<close> is \<open>undefined\<close>.
\<close>

definition doesActionApply ::
  "(KeyToken option \<Rightarrow> bool) \<Rightarrow> BaseAction \<Rightarrow> VimState \<Rightarrow> KeyToken list \<Rightarrow> bool" where
  "doesActionApply isValidRegister this vimState keysPressed' =
     (case actionClass this of
        CommandNumber \<Rightarrow>
          (let isZero = (keyAt keysPressed' 0 = Some ''0'') in
            BaseAction_doesActionApply this vimState keysPressed' \<and>
            ((isZero \<and> count (recordedState vimState) > 0) \<or> \<not> isZero))
      | CommandRegister \<Rightarrow>
          (let register = keyAt keysPressed' 1 in
            BaseAction_doesActionApply this vimState keysPressed' \<and> isValidRegister register)
      | MoveLineBegin \<Rightarrow>
          (BaseAction_doesActionApply this vimState keysPressed' \<and>
           count (recordedState vimState) = 0)
      | _ \<Rightarrow> BaseAction_doesActionApply this vimState keysPressed')"

definition couldActionApply ::
  "(KeyToken option \<Rightarrow> bool) \<Rightarrow> BaseAction \<Rightarrow> VimState \<Rightarrow> KeyToken list \<Rightarrow> bool" where
  "couldActionApply isValidRegister this vimState keysPressed' =
     (case actionClass this of
        CommandNumber \<Rightarrow>
          (let isZero = (keyAt keysPressed' 0 = Some ''0'') in
            BaseAction_couldActionApply this vimState keysPressed' \<and>
            ((isZero \<and> count (recordedState vimState) > 0) \<or> \<not> isZero))
      | CommandRegister \<Rightarrow>
          (let register = keyAt keysPressed' 1 in
            BaseAction_couldActionApply this vimState keysPressed' \<and> isValidRegister register)
      | MoveLineBegin \<Rightarrow>
          (BaseAction_couldActionApply this vimState keysPressed' \<and>
           count (recordedState vimState) = 0)
      | _ \<Rightarrow> BaseAction_couldActionApply this vimState keysPressed')"

datatype KeypressState = WaitingOnKeys | NoPossibleMatch

text \<open>What \<open>getRelevantAction\<close> returns: \<open>BaseAction | KeypressState\<close>.\<close>

datatype RelevantAction = IsAction BaseAction | IsKeypressState KeypressState

text \<open>
  An entry of \<open>Actions.allActions\<close> is \<open>{ type, action }\<close>: the class and the instance
  registered for it. A class is modelled by the object its constructor builds, so
  \<open>new type()\<close> is the first component. \<open>RegisterAction\<close> appends an entry.
\<close>

type_synonym ActionEntry = "BaseAction \<times> BaseAction"

definition RegisterAction :: "BaseAction \<Rightarrow> ActionEntry list \<Rightarrow> ActionEntry list" where
  "RegisterAction action allActions = allActions @ [(action, action)]"

text \<open>
  The loop of \<open>getRelevantAction\<close> over the entries still to visit, with the flag
  \<open>couldPotentiallyHaveMatch\<close> as it stands.
\<close>

fun getRelevantActionLoop ::
  "(KeyToken option \<Rightarrow> bool) \<Rightarrow> KeyToken list \<Rightarrow> VimState \<Rightarrow> ActionEntry list \<Rightarrow> bool
     \<Rightarrow> RelevantAction" where
  "getRelevantActionLoop isValidRegister keysPressed' vimState [] couldPotentiallyHaveMatch =
     (if couldPotentiallyHaveMatch then IsKeypressState WaitingOnKeys
      else IsKeypressState NoPossibleMatch)"
| "getRelevantActionLoop isValidRegister keysPressed' vimState ((type, action) # rest)
       couldPotentiallyHaveMatch =
     (if doesActionApply isValidRegister action vimState keysPressed'
      then IsAction (type\<lparr>keysPressed := actionKeys (recordedState vimState)\<rparr>)
      else getRelevantActionLoop isValidRegister keysPressed' vimState rest
             (if couldActionApply isValidRegister action vimState keysPressed' then True
              else couldPotentiallyHaveMatch))"

definition getRelevantAction ::
  "(KeyToken option \<Rightarrow> bool) \<Rightarrow> ActionEntry list \<Rightarrow> KeyToken list \<Rightarrow> VimState
     \<Rightarrow> RelevantAction" where
  "getRelevantAction isValidRegister allActions keysPressed' vimState =
     getRelevantActionLoop isValidRegister keysPressed' vimState allActions False"

text \<open>The registered instances of \<open>CommandNumber\<close> (line 351) and \<open>MoveLineBegin\<close> (line 2064).\<close>

definition CommandNumber_action :: BaseAction where
  "CommandNumber_action =
     \<lparr>actionClass = CommandNumber, modes = [Normal, Visual, VisualLine],
      keys = [''<number>''], mustBeFirstKey = False, keysPressed = []\<rparr>"

definition MoveLineBegin_action :: BaseAction where
  "MoveLineBegin_action =
     \<lparr>actionClass = MoveLineBegin, modes = [Normal, Visual, VisualLine, VisualBlock],
      keys = [''0''], mustBeFirstKey = False, keysPressed = []\<rparr>"

text \<open>A small registry and a session state, the inputs of the worked examples below.\<close>

definition exampleActions :: "ActionEntry list" where
  "exampleActions =
     RegisterAction
       \<lparr>actionClass = OtherClass ''MoveNonBlankFirst'',
        modes = [Normal, Visual, VisualLine, VisualBlock],
        keys = [''g'', ''g''], mustBeFirstKey = False, keysPressed = []\<rparr>
       (RegisterAction MoveLineBegin_action (RegisterAction CommandNumber_action []))"

definition exampleState :: VimState where
  "exampleState =
     \<lparr>currentMode = Normal,
      cursorPosition = \<lparr>line = 0, character = 0\<rparr>,
      cursorStartPosition = \<lparr>line = 0, character = 0\<rparr>,
      cursorPositionJustBeforeAnythingHappened = \<lparr>line = 0, character = 0\<rparr>,
      recordedState = \<lparr>count = 0, operator = None, actionsRun = [], actionKeys = [''0'']\<rparr>\<rparr>"

section \<open>The text buffer and the Position methods\<close>

text \<open>
  The text buffer (\<open>TextEditor\<close>, \<open>vscode.TextDocument\<close>) is the list of its lines;
  \<open>TextEditor.getLineCount()\<close> is its length.
\<close>

type_synonym Document = "string list"

definition getLineCount :: "Document \<Rightarrow> int" where
  "getLineCount doc = int (length doc)"

text \<open>
  \<open>TextEditor.getLineAt(position).text.length\<close>. The editor refuses a line outside the
  document; positions satisfy \<open>0 \<le> line < lineCount\<close>, and the properties below assume
  it where a line is read. Outside, the length is taken as \<open>0\<close>.
\<close>

definition lineLength :: "Document \<Rightarrow> int \<Rightarrow> int" where
  "lineLength doc l = (if 0 \<le> l \<and> l < getLineCount doc then int (length (doc ! nat l)) else 0)"


text \<open>
  The class \<open>Position\<close> (\<open>src/motion/position.ts\<close>) is not among these sources. The
  actions call its methods; they are the fields of this record, and every function below
  takes the record as its parameter \<open>P\<close>. A find or till method returns \<open>None\<close> for
  JavaScript's \<open>null\<close>; its target is \<open>keysPressed[1]\<close>, \<open>None\<close> when that is undefined.
\<close>

record PositionMethods =
  getLeft :: "Position \<Rightarrow> Position"
  getRight :: "Position \<Rightarrow> Position"
  getRightThroughLineBreaks :: "Position \<Rightarrow> Position"
  getDown :: "Position \<Rightarrow> int \<Rightarrow> Position"
  getLineBegin :: "Position \<Rightarrow> Position"
  getLineEnd :: "Position \<Rightarrow> Position"
  getPreviousLineBegin :: "Position \<Rightarrow> Position"
  isLineEnd :: "Position \<Rightarrow> bool"
  isFirstWordOfLine :: "Position \<Rightarrow> bool"
  getWordRight :: "Position \<Rightarrow> Position"
  getBigWordRight :: "Position \<Rightarrow> Position"
  getCurrentWordEnd :: "Position \<Rightarrow> Position"
  getCurrentBigWordEnd :: "Position \<Rightarrow> Position"
  findForwards :: "Position \<Rightarrow> KeyToken option \<Rightarrow> int \<Rightarrow> Position option"
  findBackwards :: "Position \<Rightarrow> KeyToken option \<Rightarrow> int \<Rightarrow> Position option"
  tilForwards :: "Position \<Rightarrow> KeyToken option \<Rightarrow> int \<Rightarrow> Position option"
  tilBackwards :: "Position \<Rightarrow> KeyToken option \<Rightarrow> int \<Rightarrow> Position option"

text \<open>
  \<open>vscode.Position.compareTo\<close>: negative, zero or positive as the first position is
  before, equal to or after the second, by line and then by character.
\<close>

definition compareTo :: "Position \<Rightarrow> Position \<Rightarrow> int" where
  "compareTo a b =
     (if line a < line b then -1 else if line a > line b then 1
      else if character a < character b then -1 else if character a > character b then 1
      else 0)"

section \<open>Movements (actions.ts, lines 65-86 and 145-238)\<close>

record IMovement =
  start :: Position
  stop :: Position
  failed :: "bool option"
  registerMode :: "RegisterMode option"

text \<open>The type \<open>Position | IMovement\<close> a movement returns.\<close>

datatype MoveResult = is_Pos: Pos (posOf: Position) | is_Mov: Mov (movOf: IMovement)

text \<open>
  JavaScript's \<open>a || b\<close> on an optional boolean: \<open>a\<close> when \<open>a\<close> is true, else \<open>b\<close>
  (\<open>None\<close> is \<open>undefined\<close>).
\<close>

definition jsOr :: "bool option \<Rightarrow> bool option \<Rightarrow> bool option" where
  "jsOr a b = (if a = Some True then a else b)"

text \<open>
  A movement object, as \<open>BaseMovement.execActionWithCount\<close> sees it: its two virtual
  methods. The movements' \<open>execAction\<close> bodies compute a result from the position and
  the state and assign to neither.
\<close>

record BaseMovement =
  execAction :: "Position \<Rightarrow> VimState \<Rightarrow> MoveResult"
  execActionForOperator :: "Position \<Rightarrow> VimState \<Rightarrow> MoveResult"

text \<open>The result of one pass of the loop: \<open>temporaryResult\<close>.\<close>

definition temporaryResultOf ::
  "BaseMovement \<Rightarrow> VimState \<Rightarrow> int \<Rightarrow> int \<Rightarrow> Position \<Rightarrow> MoveResult" where
  "temporaryResultOf this vimState count' i position =
     (let lastIteration = (i = count' - 1) in
       if operator (recordedState vimState) \<noteq> None \<and> lastIteration
       then execActionForOperator this position vimState
       else execAction this position vimState)"

text \<open>
  The loop \<open>for (let i = 0; i < count; i++)\<close> of \<open>execActionWithCount\<close>, from pass \<open>i\<close>
  on, with \<open>position\<close> and \<open>result\<close> as they stand.
\<close>

function execActionWithCountLoop ::
  "PositionMethods \<Rightarrow> BaseMovement \<Rightarrow> VimState \<Rightarrow> int \<Rightarrow> int \<Rightarrow> Position \<Rightarrow> MoveResult
     \<Rightarrow> MoveResult" where
  "execActionWithCountLoop P this vimState count' i position result =
     (if i < count' then
        (let firstIteration = (i = 0);
             lastIteration = (i = count' - 1);
             temporaryResult = temporaryResultOf this vimState count' i position
         in case temporaryResult of
              Pos p \<Rightarrow> execActionWithCountLoop P this vimState count' (i + 1) p (Pos p)
            | Mov t \<Rightarrow>
                (let result1 = (case result of
                                  Pos _ \<Rightarrow> \<lparr>start = \<lparr>line = 0, character = 0\<rparr>,
                                            stop = \<lparr>line = 0, character = 0\<rparr>,
                                            failed = Some False, registerMode = None\<rparr>
                                | Mov r \<Rightarrow> r);
                     result2 = result1\<lparr>failed := jsOr (failed result1) (failed t)\<rparr>;
                     result3 = (if firstIteration then result2\<lparr>start := start t\<rparr> else result2)
                 in if lastIteration
                    then execActionWithCountLoop P this vimState count' (i + 1) position
                           (Mov (result3\<lparr>stop := stop t\<rparr>))
                    else execActionWithCountLoop P this vimState count' (i + 1)
                           (getRightThroughLineBreaks P (stop t)) (Mov result3)))
      else result)"
  by pat_completeness auto
termination
  by (relation "measure (\<lambda>(P, this, vimState, count', i, position, result). nat (count' - i))")
     auto

declare execActionWithCountLoop.simps [simp del]

definition execActionWithCount ::
  "PositionMethods \<Rightarrow> BaseMovement \<Rightarrow> Position \<Rightarrow> VimState \<Rightarrow> int \<Rightarrow> MoveResult" where
  "execActionWithCount P this position vimState count' =
     (let count'' = (if count' < 1 then 1 else if count' > 99999 then 99999 else count')
      in execActionWithCountLoop P this vimState count'' 0 position
           (Pos \<lparr>line = 0, character = 0\<rparr>))"

text \<open>
  The results of the passes of the loop, in order, from pass \<open>i\<close> on: the sequence of the
  values \<open>temporaryResult\<close> takes, with \<open>position\<close> threaded as the loop threads it.
\<close>

function iterationResults ::
  "PositionMethods \<Rightarrow> BaseMovement \<Rightarrow> VimState \<Rightarrow> int \<Rightarrow> int \<Rightarrow> Position \<Rightarrow> MoveResult list"
  where
  "iterationResults P this vimState count' i position =
     (if i < count' then
        (let temporaryResult = temporaryResultOf this vimState count' i position
         in temporaryResult #
            iterationResults P this vimState count' (i + 1)
              (case temporaryResult of
                 Pos p \<Rightarrow> p
               | Mov t \<Rightarrow> if i = count' - 1 then position
                          else getRightThroughLineBreaks P (stop t)))
      else [])"
  by pat_completeness auto
termination
  by (relation "measure (\<lambda>(P, this, vimState, count', i, position). nat (count' - i))") auto

declare iterationResults.simps [simp del]

text \<open>
  \<open>MoveNonBlankLast\<close> (the key \<open>G\<close>, line 2252) overrides \<open>execActionWithCount\<close>.
\<close>

definition MoveNonBlankLast_execActionWithCount ::
  "Document \<Rightarrow> Position \<Rightarrow> VimState \<Rightarrow> int \<Rightarrow> MoveResult" where
  "MoveNonBlankLast_execActionWithCount doc position vimState count' =
     (let stop' = (if count' = 0 then \<lparr>line = getLineCount doc - 1, character = 0\<rparr>
                   else \<lparr>line = count' - 1, character = 0\<rparr>)
      in Mov \<lparr>start = cursorStartPosition vimState, stop = stop', failed = None,
              registerMode = Some LineWise\<rparr>)"

text \<open>
  \<open>MoveOutdent\<close> (the key \<open><\<close> after the operator \<open><\<close>, line 2862) is a movement that
  returns a Range from \<open>execAction\<close> and inherits \<open>execActionForOperator\<close> and
  \<open>execActionWithCount\<close>.
\<close>

definition MoveOutdent_execAction :: "PositionMethods \<Rightarrow> Position \<Rightarrow> VimState \<Rightarrow> MoveResult" where
  "MoveOutdent_execAction P position vimState =
     Mov \<lparr>start = getLineBegin P position, stop = getLineEnd P position,
          failed = None, registerMode = None\<rparr>"

definition MoveOutdent_movement :: "PositionMethods \<Rightarrow> BaseMovement" where
  "MoveOutdent_movement P =
     \<lparr>execAction = MoveOutdent_execAction P, execActionForOperator = MoveOutdent_execAction P\<rparr>"

section \<open>Find, till and word movements (actions.ts, lines 1977-2052 and 2273-2331)\<close>

text \<open>The Range a find or till movement returns when its target is not found.\<close>

definition failedAt :: "Position \<Rightarrow> MoveResult" where
  "failedAt position =
     Mov \<lparr>start = position, stop = position, failed = Some True, registerMode = None\<rparr>"

text \<open>\<open>count || 1\<close>: zero is the falsy count.\<close>

definition countOr1 :: "int \<Rightarrow> int" where
  "countOr1 count' = (if count' = 0 then 1 else count')"

definition MoveFindForward_execActionWithCount ::
  "PositionMethods \<Rightarrow> KeyToken list \<Rightarrow> Position \<Rightarrow> VimState \<Rightarrow> int \<Rightarrow> MoveResult" where
  "MoveFindForward_execActionWithCount P keysPressed' position vimState count' =
     (let count'' = countOr1 count';
          toFind = keyAt keysPressed' 1
      in case findForwards P position toFind count'' of
           None \<Rightarrow> failedAt position
         | Some result \<Rightarrow>
             Pos (if operator (recordedState vimState) \<noteq> None then getRight P result
                  else result))"

definition MoveFindBackward_execActionWithCount ::
  "PositionMethods \<Rightarrow> KeyToken list \<Rightarrow> Position \<Rightarrow> VimState \<Rightarrow> int \<Rightarrow> MoveResult" where
  "MoveFindBackward_execActionWithCount P keysPressed' position vimState count' =
     (let count'' = countOr1 count';
          toFind = keyAt keysPressed' 1
      in case findBackwards P position toFind count'' of
           None \<Rightarrow> failedAt position
         | Some result \<Rightarrow> Pos result)"

definition MoveTilForward_execActionWithCount ::
  "PositionMethods \<Rightarrow> KeyToken list \<Rightarrow> Position \<Rightarrow> VimState \<Rightarrow> int \<Rightarrow> MoveResult" where
  "MoveTilForward_execActionWithCount P keysPressed' position vimState count' =
     (let count'' = countOr1 count';
          toFind = keyAt keysPressed' 1
      in case tilForwards P position toFind count'' of
           None \<Rightarrow> failedAt position
         | Some result \<Rightarrow>
             Pos (if operator (recordedState vimState) \<noteq> None then getRight P result
                  else result))"

definition MoveTilBackward_execActionWithCount ::
  "PositionMethods \<Rightarrow> KeyToken list \<Rightarrow> Position \<Rightarrow> VimState \<Rightarrow> int \<Rightarrow> MoveResult" where
  "MoveTilBackward_execActionWithCount P keysPressed' position vimState count' =
     (let count'' = countOr1 count';
          toFind = keyAt keysPressed' 1
      in case tilBackwards P position toFind count'' of
           None \<Rightarrow> failedAt position
         | Some result \<Rightarrow> Pos result)"

text \<open>
  \<open>operator instanceof ChangeOperator\<close>: no class of the file extends
  \<open>ChangeOperator\<close>, so the pending operator is an instance exactly when its class is
  \<open>ChangeOperator\<close>.
\<close>

definition instanceofChangeOperator :: "Operator option \<Rightarrow> bool" where
  "instanceofChangeOperator op = (op = Some ChangeOperator)"

definition MoveWordBegin_execAction :: "PositionMethods \<Rightarrow> Position \<Rightarrow> VimState \<Rightarrow> Position" where
  "MoveWordBegin_execAction P position vimState =
     (if instanceofChangeOperator (operator (recordedState vimState))
      then getRight P (getCurrentWordEnd P position)
      else getWordRight P position)"

definition MoveWordBegin_execActionForOperator ::
  "PositionMethods \<Rightarrow> Position \<Rightarrow> VimState \<Rightarrow> Position" where
  "MoveWordBegin_execActionForOperator P position vimState =
     (let result = MoveWordBegin_execAction P position vimState
      in if line result > line position + 1 \<or>
            (line result = line position + 1 \<and> isFirstWordOfLine P result)
         then getLineEnd P position
         else if isLineEnd P result
         then \<lparr>line = line result, character = character result + 1\<rparr>
         else result)"

definition MoveFullWordBegin_execAction ::
  "PositionMethods \<Rightarrow> Position \<Rightarrow> VimState \<Rightarrow> Position" where
  "MoveFullWordBegin_execAction P position vimState =
     (if instanceofChangeOperator (operator (recordedState vimState))
      then getRight P (getCurrentBigWordEnd P position)
      else getBigWordRight P position)"

text \<open>
  The targets of \<open>e\<close> and \<open>E\<close> under an operator (\<open>MoveWordEnd\<close> and \<open>MoveFullWordEnd\<close>,
  lines 2333-2359): what \<open>ce\<close> and \<open>cE\<close> operate to.
\<close>

definition MoveWordEnd_execActionForOperator ::
  "PositionMethods \<Rightarrow> Position \<Rightarrow> VimState \<Rightarrow> Position" where
  "MoveWordEnd_execActionForOperator P position vimState =
     (let end' = getCurrentWordEnd P position
      in \<lparr>line = line end', character = character end' + 1\<rparr>)"

definition MoveFullWordEnd_execActionForOperator ::
  "PositionMethods \<Rightarrow> Position \<Rightarrow> VimState \<Rightarrow> Position" where
  "MoveFullWordEnd_execActionForOperator P position vimState =
     getRight P (getCurrentBigWordEnd P position)"

text \<open>The example state with a pending operator.\<close>

definition pendingOperator :: "Operator \<Rightarrow> VimState \<Rightarrow> VimState" where
  "pendingOperator op vimState =
     vimState\<lparr>recordedState := (recordedState vimState)\<lparr>operator := Some op\<rparr>\<rparr>"

text \<open>The example state in Visual mode, the cursor at the end of a selection.\<close>

definition visualState :: VimState where
  "visualState =
     exampleState\<lparr>currentMode := Visual, cursorPosition := \<lparr>line = 0, character = 8\<rparr>\<rparr>"

section \<open>The delete and yank operators (actions.ts, lines 817-945)\<close>

text \<open>
  The editor as the operators see it: the text buffer and the register store. The store
  and the buffer's edit primitives are outside these sources; \<open>EditorOps\<close> holds them:
  \<open>getText\<close> reads the text of a range, \<open>deleteText\<close> is \<open>TextEditor.delete\<close>, and
  \<open>registerPut\<close> is \<open>Register.put(text, vimState)\<close>.
\<close>

record 'r Editor =
  document :: Document
  registers :: 'r

record 'r EditorOps =
  getText :: "Document \<Rightarrow> Position \<times> Position \<Rightarrow> string"
  deleteText :: "Position \<times> Position \<Rightarrow> Document \<Rightarrow> Document"
  registerPut :: "string \<Rightarrow> VimState \<Rightarrow> 'r \<Rightarrow> 'r"



text \<open>Lines 915-923 of \<open>YankOperator.run\<close>: the range whose text is yanked.\<close>

definition yankRange :: "Position \<Rightarrow> Position \<Rightarrow> Position \<times> Position" where
  "yankRange start' end' =
     (if compareTo start' end' \<le> 0
      then (start', \<lparr>line = line end', character = character end' + 1\<rparr>)
      else (end', \<lparr>line = line start', character = character start' + 1\<rparr>))"

definition YankOperator_run ::
  "'r EditorOps \<Rightarrow> VimState \<Rightarrow> Position \<Rightarrow> Position \<Rightarrow> 'r Editor \<Rightarrow> VimState \<times> 'r Editor" where
  "YankOperator_run E vimState start' end' editor =
     (let originalMode = currentMode vimState;
          doc = document editor;
          (start1, end1) = yankRange start' end';
          text0 = getText E doc (start1, end1);
          text1 = (if currentMode vimState = Visual \<and>
                      character end1 = lineLength doc (line end1) + 1
                   then text0 @ [CHR 0x0A] else text0);
          registers' = registerPut E text1 vimState (registers editor);
          vimState1 = vimState\<lparr>currentMode := Normal\<rparr>;
          vimState2 =
            (if originalMode = Normal
             then vimState1\<lparr>cursorPosition := cursorPositionJustBeforeAnythingHappened vimState1\<rparr>
             else vimState1\<lparr>cursorPosition := start1\<rparr>)
      in (vimState2, editor\<lparr>registers := registers'\<rparr>))"

section \<open>The Position methods over a document, from the specification\<close>

text \<open>
  Modelled from the spec: the methods of the class \<open>Position\<close>, which is missing from
  these sources, as sections 3 and 4.1 of the specification describe them. The properties
  of the actions below hold for every implementation \<open>P\<close> of the methods; this one
  serves as the concrete implementation in the worked examples.
\<close>

definition lineText :: "Document \<Rightarrow> int \<Rightarrow> string" where
  "lineText doc l = (if 0 \<le> l \<and> l < getLineCount doc then doc ! nat l else [])"

definition doc_getLineBegin :: "Position \<Rightarrow> Position" where
  "doc_getLineBegin p = \<lparr>line = line p, character = 0\<rparr>"

definition doc_getLineEnd :: "Document \<Rightarrow> Position \<Rightarrow> Position" where
  "doc_getLineEnd doc p = \<lparr>line = line p, character = lineLength doc (line p)\<rparr>"

definition doc_isLineEnd :: "Document \<Rightarrow> Position \<Rightarrow> bool" where
  "doc_isLineEnd doc p = (character p = lineLength doc (line p))"

definition doc_getLeft :: "Position \<Rightarrow> Position" where
  "doc_getLeft p = (if 0 < character p then p\<lparr>character := character p - 1\<rparr> else p)"

definition doc_getRight :: "Document \<Rightarrow> Position \<Rightarrow> Position" where
  "doc_getRight doc p =
     (if character p < lineLength doc (line p) then p\<lparr>character := character p + 1\<rparr> else p)"

definition doc_getDown :: "Document \<Rightarrow> Position \<Rightarrow> int \<Rightarrow> Position" where
  "doc_getDown doc p desiredColumn =
     (if line p + 1 < getLineCount doc
      then \<lparr>line = line p + 1, character = min desiredColumn (lineLength doc (line p + 1))\<rparr>
      else p)"

definition doc_getRightThroughLineBreaks :: "Document \<Rightarrow> Position \<Rightarrow> Position" where
  "doc_getRightThroughLineBreaks doc p =
     (if character p < lineLength doc (line p) then p\<lparr>character := character p + 1\<rparr>
      else doc_getDown doc p 0)"

definition doc_getPreviousLineBegin :: "Position \<Rightarrow> Position" where
  "doc_getPreviousLineBegin p =
     (if line p = 0 then doc_getLineBegin p else \<lparr>line = line p - 1, character = 0\<rparr>)"

text \<open>
  Modelled from the spec: the word motions of \<open>Position\<close> (section 4.1). Character
  classes: \<open>0\<close> white space, \<open>1\<close> word characters, \<open>2\<close> punctuation. A word is a run of
  one class other than white space; a big word is a run of characters that are not white
  space.
\<close>

definition charClass :: "char \<Rightarrow> nat" where
  "charClass c =
     (if c \<in> set [CHR '' '', CHR 0x09] then 0
      else if c \<in> set ''abcdefghijklmnopqrstuvwxyzABCDEFGHIJKLMNOPQRSTUVWXYZ0123456789_''
      then 1 else 2)"

definition bigCharClass :: "char \<Rightarrow> nat" where
  "bigCharClass c = (if charClass c = 0 then 0 else 1)"

definition wordStarts :: "(char \<Rightarrow> nat) \<Rightarrow> string \<Rightarrow> nat list" where
  "wordStarts cls s =
     (if s = [] then [0]
      else filter (\<lambda>i. cls (s ! i) \<noteq> 0 \<and> (i = 0 \<or> cls (s ! (i - 1)) \<noteq> cls (s ! i)))
             [0 ..< length s])"

definition wordEnds :: "(char \<Rightarrow> nat) \<Rightarrow> string \<Rightarrow> nat list" where
  "wordEnds cls s =
     filter (\<lambda>i. cls (s ! i) \<noteq> 0 \<and> (i + 1 = length s \<or> cls (s ! (i + 1)) \<noteq> cls (s ! i)))
       [0 ..< length s]"

text \<open>
  Modelled from the spec: the positions at the columns \<open>stops\<close> picks on each line, after
  \<open>p\<close> in reading order, from the line of \<open>p\<close> to the end of the document.
\<close>

definition positionsAfter :: "(string \<Rightarrow> nat list) \<Rightarrow> Document \<Rightarrow> Position \<Rightarrow> Position list" where
  "positionsAfter stops doc p =
     concat (map (\<lambda>l. map (\<lambda>i. \<lparr>line = int l, character = int i\<rparr>)
                        (filter (\<lambda>i. line p < int l \<or> character p < int i) (stops (doc ! l))))
                 [nat (line p) ..< length doc])"

text \<open>
  Modelled from the spec: a word motion that runs into the end of the document returns the
  position unchanged.
\<close>

definition firstOr :: "Position \<Rightarrow> Position list \<Rightarrow> Position" where
  "firstOr p ps = (case ps of [] \<Rightarrow> p | q # _ \<Rightarrow> q)"

definition doc_getWordRight :: "Document \<Rightarrow> Position \<Rightarrow> Position" where
  "doc_getWordRight doc p = firstOr p (positionsAfter (wordStarts charClass) doc p)"

definition doc_getBigWordRight :: "Document \<Rightarrow> Position \<Rightarrow> Position" where
  "doc_getBigWordRight doc p = firstOr p (positionsAfter (wordStarts bigCharClass) doc p)"

definition doc_getCurrentWordEnd :: "Document \<Rightarrow> Position \<Rightarrow> Position" where
  "doc_getCurrentWordEnd doc p = firstOr p (positionsAfter (wordEnds charClass) doc p)"

definition doc_getCurrentBigWordEnd :: "Document \<Rightarrow> Position \<Rightarrow> Position" where
  "doc_getCurrentBigWordEnd doc p = firstOr p (positionsAfter (wordEnds bigCharClass) doc p)"

definition doc_isFirstWordOfLine :: "Document \<Rightarrow> Position \<Rightarrow> bool" where
  "doc_isFirstWordOfLine doc p =
     (character p = int (length (takeWhile (\<lambda>c. charClass c = 0) (lineText doc (line p)))))"

text \<open>
  Modelled from the spec: the find and till methods of \<open>Position\<close> (section 4.1). The
  columns of the line of \<open>p\<close> that hold the target character, after the cursor (in scan
  order, left to right) and before it (in scan order, right to left).
\<close>

definition occurrencesAfter :: "Document \<Rightarrow> Position \<Rightarrow> KeyToken \<Rightarrow> nat list" where
  "occurrencesAfter doc p toFind =
     filter (\<lambda>i. [lineText doc (line p) ! i] = toFind \<and> character p < int i)
       [0 ..< length (lineText doc (line p))]"

definition occurrencesBefore :: "Document \<Rightarrow> Position \<Rightarrow> KeyToken \<Rightarrow> nat list" where
  "occurrencesBefore doc p toFind =
     rev (filter (\<lambda>i. [lineText doc (line p) ! i] = toFind \<and> int i < character p)
            [0 ..< length (lineText doc (line p))])"

text \<open>
  Modelled from the spec: the \<open>n\<close>-th of the columns \<open>cols\<close>, shifted by \<open>shift\<close> (\<open>0\<close> for
  find, one column short of the target for till); none if there are fewer.
\<close>

definition nthOccurrence :: "Position \<Rightarrow> nat list \<Rightarrow> int \<Rightarrow> int \<Rightarrow> Position option" where
  "nthOccurrence p cols n shift =
     (if 1 \<le> n \<and> n \<le> int (length cols)
      then Some \<lparr>line = line p, character = int (cols ! nat (n - 1)) + shift\<rparr>
      else None)"

definition doc_find ::
  "(Document \<Rightarrow> Position \<Rightarrow> KeyToken \<Rightarrow> nat list) \<Rightarrow> int \<Rightarrow> Document \<Rightarrow> Position
     \<Rightarrow> KeyToken option \<Rightarrow> int \<Rightarrow> Position option" where
  "doc_find occurrences shift doc p toFind n =
     (case toFind of None \<Rightarrow> None
      | Some c \<Rightarrow> nthOccurrence p (occurrences doc p c) n shift)"

definition documentMethods :: "Document \<Rightarrow> PositionMethods" where
  "documentMethods doc =
     \<lparr>getLeft = doc_getLeft,
      getRight = doc_getRight doc,
      getRightThroughLineBreaks = doc_getRightThroughLineBreaks doc,
      getDown = doc_getDown doc,
      getLineBegin = doc_getLineBegin,
      getLineEnd = doc_getLineEnd doc,
      getPreviousLineBegin = doc_getPreviousLineBegin,
      isLineEnd = doc_isLineEnd doc,
      isFirstWordOfLine = doc_isFirstWordOfLine doc,
      getWordRight = doc_getWordRight doc,
      getBigWordRight = doc_getBigWordRight doc,
      getCurrentWordEnd = doc_getCurrentWordEnd doc,
      getCurrentBigWordEnd = doc_getCurrentBigWordEnd doc,
      findForwards = doc_find occurrencesAfter 0 doc,
      findBackwards = doc_find occurrencesBefore 0 doc,
      tilForwards = doc_find occurrencesAfter (-1) doc,
      tilBackwards = doc_find occurrencesBefore 1 doc\<rparr>"




definition findMethods :: "Document \<Rightarrow> PositionMethods \<Rightarrow> bool" where
  "findMethods doc P =
     (\<forall>p c n.
        (int (length (occurrencesAfter doc p c)) < n
           \<longrightarrow> findForwards P p (Some c) n = None \<and> tilForwards P p (Some c) n = None)
      \<and> (int (length (occurrencesBefore doc p c)) < n
           \<longrightarrow> findBackwards P p (Some c) n = None \<and> tilBackwards P p (Some c) n = None))"

text \<open>The buffer and the editor primitives of the worked examples.\<close>

definition exampleDocument :: Document where
  "exampleDocument = [''hello world'', ''  goodbye'', ''end'']"

text \<open>
  Modelled from the spec: the two buffer primitives of section 6 the operators use, reading
  and deleting the text between two positions of the list of lines.
\<close>

definition doc_getText :: "Document \<Rightarrow> Position \<times> Position \<Rightarrow> string" where
  "doc_getText doc r =
     (case r of (a, b) \<Rightarrow>
        if line a = line b
        then take (nat (character b - character a)) (drop (nat (character a)) (lineText doc (line a)))
        else drop (nat (character a)) (lineText doc (line a))
             @ concat (map (\<lambda>l. CHR 0x0A # l)
                         (take (nat (line b - line a - 1)) (drop (nat (line a) + 1) doc)))
             @ CHR 0x0A # take (nat (character b)) (lineText doc (line b)))"

definition doc_deleteText :: "Position \<times> Position \<Rightarrow> Document \<Rightarrow> Document" where
  "doc_deleteText r doc =
     (case r of (a, b) \<Rightarrow>
        take (nat (line a)) doc
        @ [take (nat (character a)) (lineText doc (line a))
           @ drop (nat (character b)) (lineText doc (line b))]
        @ drop (nat (line b) + 1) doc)"

definition exampleOps :: "(string list) EditorOps" where
  "exampleOps =
     \<lparr>getText = doc_getText, deleteText = doc_deleteText,
      registerPut = (\<lambda>text vimState regs. text # regs)\<rparr>"

section \<open>Properties of the sequence comparison\<close>

lemma indexOfFrom_range: "indexOfFrom s k i = -1 \<or> i \<le> indexOfFrom s k i"
proof (induction s arbitrary: i)
  case Nil
  show ?case by simp
next
  case (Cons c t)
  from Cons.IH [of "i + 1"] show ?case by auto
qed

lemma indexOfFrom_found:
  "0 \<le> i \<Longrightarrow> (indexOfFrom s k i \<noteq> -1) = sublist k s"
proof (induction s arbitrary: i)
  case Nil
  then show ?case by auto
next
  case (Cons c t)
  have pre: "(take (length k) (c # t) = k) = prefix k (c # t)"
    by (metis prefix_def append_take_drop_id append_eq_conv_conj)
  show ?case
  proof (cases "prefix k (c # t)")
    case True
    with pre Cons.prems show ?thesis
      by (auto simp: sublist_Cons_right)
  next
    case False
    have "0 \<le> i + 1" using Cons.prems by simp
    from Cons.IH [OF this] False pre show ?thesis
      by (simp add: sublist_Cons_right)
  qed
qed

lemma indexOf_found: "(indexOf s k \<noteq> -1) = sublist k s"
  unfolding indexOf_def by (rule indexOfFrom_found) simp

lemma containsControlKeyIn_iff:
  "containsControlKeyIn ks s = (\<exists>k \<in> set ks. sublist k s)"
  by (induction ks) (auto simp: indexOf_found)

lemma containsControlKey_spec: "containsControlKey s = spec_isControlKeyToken s"
  by (simp add: containsControlKey_def spec_isControlKeyToken_def containsControlKeyIn_iff)

lemma indexOf_single:
  "(indexOf ''1234567890'' [c] > -1) = (c \<in> set ''0123456789'')"
proof -
  have "indexOf ''1234567890'' [c] = -1 \<or> 0 \<le> indexOf ''1234567890'' [c]"
    unfolding indexOf_def by (rule indexOfFrom_range)
  then have "(indexOf ''1234567890'' [c] > -1) = (indexOf ''1234567890'' [c] \<noteq> -1)"
    by auto
  also have "\<dots> = sublist [c] ''1234567890''"
    by (rule indexOf_found)
  also have "\<dots> = (c \<in> set ''0123456789'')"
    by (simp add: sublist_Cons_right) blast
  finally show ?thesis .
qed

lemma isSingleNumber_spec: "isSingleNumber s = spec_isDecimalDigit s"
proof (cases s)
  case Nil
  then show ?thesis by (simp add: isSingleNumber_def spec_isDecimalDigit_def)
next
  case (Cons c t)
  show ?thesis
  proof (cases t)
    case Nil
    with Cons show ?thesis
      unfolding isSingleNumber_def spec_isDecimalDigit_def
      using indexOf_single [of c] by auto
  next
    case (Cons d u)
    with \<open>s = c # t\<close> show ?thesis
      by (simp add: isSingleNumber_def spec_isDecimalDigit_def)
  qed
qed

lemma compareLoop_spec:
  "length one = length two \<Longrightarrow> compareLoop one two = list_all2 spec_keyMatches one two"
proof (induction one two rule: list_induct2)
  case Nil
  show ?case by simp
next
  case (Cons left one right two)
  then show ?case
    by (auto simp: spec_keyMatches_def isSingleNumber_spec containsControlKey_spec)
qed

text \<open>
  C2. Two key sequences compare equal exactly when they have the same length and every
  position matches in the specification's sense: \<open><any>\<close> on either side matches
  anything, \<open><number>\<close> matches a single decimal digit, \<open><character>\<close> matches every
  token that is not a control-key token, and otherwise the two tokens are the same
  string.
\<close>

theorem compareKeypressSequence_spec:
  "compareKeypressSequence one two =
     (length one = length two \<and>
      (\<forall>i < length one. spec_keyMatches (one ! i) (two ! i)))"
proof (cases "length one = length two")
  case True
  then show ?thesis
    by (simp add: compareKeypressSequence_def compareLoop_spec list_all2_conv_all_nth)
next
  case False
  then show ?thesis by (simp add: compareKeypressSequence_def)
qed

theorem compareKeypressSequence_spec_witness:
  "compareKeypressSequence [''f'', ''<character>''] [''f'', ''x'']
   \<and> \<not> compareKeypressSequence [''f'', ''<character>''] [''f'', ''<escape>'']"
  by (subst (1 2) compareKeypressSequence_spec)
     (simp add: spec_keyMatches_def spec_isControlKeyToken_def controlKeys_def
        sublist_code less_Suc_eq all_conj_distrib numeral_2_eq_2)

section \<open>Properties of the key matcher\<close>

lemma getRelevantActionLoop_spec:
  "getRelevantActionLoop V ks vs entries could =
     (case find (\<lambda>(type, action). doesActionApply V action vs ks) entries of
        Some (type, action) \<Rightarrow> IsAction (type\<lparr>keysPressed := actionKeys (recordedState vs)\<rparr>)
      | None \<Rightarrow>
          if could \<or> (\<exists>(type, action) \<in> set entries. couldActionApply V action vs ks)
          then IsKeypressState WaitingOnKeys else IsKeypressState NoPossibleMatch)"
proof (induction entries arbitrary: could)
  case Nil
  show ?case by simp
next
  case (Cons e entries)
  obtain type action where e: "e = (type, action)" by (cases e)
  show ?case
  proof (cases "doesActionApply V action vs ks")
    case True
    with e show ?thesis by simp
  next
    case False
    with e Cons.IH show ?thesis by (auto split: option.splits)
  qed
qed

text \<open>
  C1. The key matcher is three-valued and decided in one pass in registration order: the
  first registered action whose \<open>doesActionApply\<close> holds on the whole key buffer is
  returned as a fresh instance (carrying the recorded action keys); if there is none and
  some action's \<open>couldActionApply\<close> holds, the answer is \<open>WaitingOnKeys\<close>; otherwise it
  is \<open>NoPossibleMatch\<close>.
\<close>

theorem getRelevantAction_three_valued:
  "getRelevantAction V allActions ks vs =
     (case find (\<lambda>(type, action). doesActionApply V action vs ks) allActions of
        Some (type, action) \<Rightarrow> IsAction (type\<lparr>keysPressed := actionKeys (recordedState vs)\<rparr>)
      | None \<Rightarrow>
          if (\<exists>(type, action) \<in> set allActions. couldActionApply V action vs ks)
          then IsKeypressState WaitingOnKeys else IsKeypressState NoPossibleMatch)"
  unfolding getRelevantAction_def getRelevantActionLoop_spec by auto

lemmas matcher_eval =
  exampleActions_def exampleState_def RegisterAction_def MoveLineBegin_action_def
  CommandNumber_action_def doesActionApply_def couldActionApply_def
  BaseAction_doesActionApply_def BaseAction_couldActionApply_def
  compareKeypressSequence_def keyAt_def isSingleNumber_def indexOf_def
  containsControlKey_def controlKeys_def

theorem getRelevantAction_three_valued_witness:
  "getRelevantAction (\<lambda>r. True) exampleActions [''0''] exampleState
     = IsAction (MoveLineBegin_action\<lparr>keysPressed := [''0'']\<rparr>)
   \<and> getRelevantAction (\<lambda>r. True) exampleActions [''g''] exampleState
     = IsKeypressState WaitingOnKeys
   \<and> getRelevantAction (\<lambda>r. True) exampleActions [''z''] exampleState
     = IsKeypressState NoPossibleMatch"
  by (subst (1 2 3) getRelevantAction_three_valued) (simp add: matcher_eval)

text \<open>
  C10. In the modes Normal, Visual and VisualLine, where both actions are registered, the
  single key \<open>0\<close> is never ambiguous: \<open>CommandNumber\<close> applies exactly when a nonzero
  count has been typed, \<open>MoveLineBegin\<close> exactly when the count is \<open>0\<close>, and so exactly
  one of the two applies.
\<close>

theorem zero_key_unambiguous:
  assumes "currentMode vimState \<in> {Normal, Visual, VisualLine}"
  shows "doesActionApply V CommandNumber_action vimState [''0'']
           = (count (recordedState vimState) > 0)
       \<and> doesActionApply V MoveLineBegin_action vimState [''0'']
           = (count (recordedState vimState) = 0)
       \<and> (doesActionApply V CommandNumber_action vimState [''0'']
           \<noteq> doesActionApply V MoveLineBegin_action vimState [''0''])"
  using assms
  by (auto simp add: MoveLineBegin_action_def CommandNumber_action_def
        doesActionApply_def BaseAction_doesActionApply_def
        compareKeypressSequence_def keyAt_def isSingleNumber_def indexOf_def)

theorem zero_key_unambiguous_witness:
  "currentMode exampleState \<in> {Normal, Visual, VisualLine}
   \<and> doesActionApply (\<lambda>r. True) MoveLineBegin_action exampleState [''0'']
   \<and> \<not> doesActionApply (\<lambda>r. True) CommandNumber_action exampleState [''0'']"
proof -
  have m: "currentMode exampleState \<in> {Normal, Visual, VisualLine}"
    by (simp add: exampleState_def)
  from zero_key_unambiguous [OF m, of "\<lambda>r. True"] m show ?thesis
    by (simp add: exampleState_def)
qed

section \<open>Properties of the count loop\<close>

text \<open>
  C4, as the claim states it, fails: \<open>G\<close> is a movement run with a count, and without a
  count (\<open>count = 0\<close>) it goes to the last line, while with \<open>count = 1\<close> it goes to the
  first. In the three-line example document the two stops are lines 2 and 0.
\<close>

theorem MoveNonBlankLast_count_counterexample:
  "MoveNonBlankLast_execActionWithCount exampleDocument \<lparr>line = 0, character = 0\<rparr> exampleState 0
     = Mov \<lparr>start = \<lparr>line = 0, character = 0\<rparr>, stop = \<lparr>line = 2, character = 0\<rparr>,
            failed = None, registerMode = Some LineWise\<rparr>
   \<and> MoveNonBlankLast_execActionWithCount exampleDocument \<lparr>line = 0, character = 0\<rparr> exampleState 1
     = Mov \<lparr>start = \<lparr>line = 0, character = 0\<rparr>, stop = \<lparr>line = 0, character = 0\<rparr>,
            failed = None, registerMode = Some LineWise\<rparr>
   \<and> MoveNonBlankLast_execActionWithCount exampleDocument \<lparr>line = 0, character = 0\<rparr> exampleState 0
     \<noteq> MoveNonBlankLast_execActionWithCount exampleDocument \<lparr>line = 0, character = 0\<rparr>
         exampleState 1"
  by (simp add: MoveNonBlankLast_execActionWithCount_def exampleDocument_def exampleState_def
        getLineCount_def)

text \<open>
  C4, amended. For every movement that runs the count loop of \<open>BaseMovement\<close> (does not
  override \<open>execActionWithCount\<close>), every position and every state: count \<open>0\<close> gives the
  result of count \<open>1\<close>, a count above \<open>99999\<close> gives the result of \<open>99999\<close>, and the loop
  runs with the count clamped to \<open>[1, 99999]\<close>.
\<close>

theorem execActionWithCount_clamped:
  "execActionWithCount P this position vimState 0 = execActionWithCount P this position vimState 1
   \<and> (99999 < c \<longrightarrow>
        execActionWithCount P this position vimState c
          = execActionWithCount P this position vimState 99999)
   \<and> execActionWithCount P this position vimState c
        = execActionWithCountLoop P this vimState (max 1 (min c 99999)) 0 position
            (Pos \<lparr>line = 0, character = 0\<rparr>)"
  by (simp add: execActionWithCount_def Let_def max_def min_def)

theorem execActionWithCount_clamped_witness:
  "(99999::int) < 100000
   \<and> execActionWithCount (documentMethods exampleDocument)
         (MoveOutdent_movement (documentMethods exampleDocument))
         \<lparr>line = 0, character = 3\<rparr> exampleState 100000
     = execActionWithCount (documentMethods exampleDocument)
         (MoveOutdent_movement (documentMethods exampleDocument))
         \<lparr>line = 0, character = 3\<rparr> exampleState 99999"
  using execActionWithCount_clamped [of "documentMethods exampleDocument"
      "MoveOutdent_movement (documentMethods exampleDocument)"
      "\<lparr>line = 0, character = 3\<rparr>" exampleState 100000]
  by simp

lemma jsOr_true: "(jsOr a b = Some True) = (a = Some True \<or> b = Some True)"
  by (auto simp: jsOr_def)

lemma iterationResults_done: "\<not> i < c \<Longrightarrow> iterationResults P this vs c i pos = []"
  by (subst iterationResults.simps) simp

lemma loop_done: "\<not> i < c \<Longrightarrow> execActionWithCountLoop P this vs c i pos res = res"
  by (subst execActionWithCountLoop.simps) simp

lemma iterationResults_length: "length (iterationResults P this vs c i pos) = nat (c - i)"
proof (induction "nat (c - i)" arbitrary: i pos)
  case 0
  then show ?case by (simp add: iterationResults_done)
next
  case (Suc n)
  then have lt: "i < c" and n: "n = nat (c - (i + 1))" by auto
  show ?case
    apply (subst iterationResults.simps)
    using lt Suc.hyps(1) [OF n] Suc.hyps(2) by (simp add: Let_def)
qed

lemma loop_later:
  "1 \<le> i \<Longrightarrow> \<forall>t \<in> set (iterationResults P this vs c i pos). is_Mov t \<Longrightarrow>
   \<exists>r'. execActionWithCountLoop P this vs c i pos (Mov r) = Mov r'
      \<and> start r' = start r
      \<and> stop r' = (if i < c then stop (movOf (last (iterationResults P this vs c i pos))) else stop r)
      \<and> (failed r' = Some True \<longleftrightarrow>
           failed r = Some True \<or> (\<exists>t \<in> set (iterationResults P this vs c i pos). failed (movOf t) = Some True))"
proof (induction "nat (c - i)" arbitrary: i pos r)
  case 0
  then have "\<not> i < c" by simp
  then show ?case by (simp add: loop_done iterationResults_done)
next
  case (Suc n)
  then have lt: "i < c" and n: "n = nat (c - (i + 1))" and i0: "i \<noteq> 0" by auto
  let ?t = "temporaryResultOf this vs c i pos"
  let ?pos' = "(case ?t of Pos p \<Rightarrow> p | Mov t \<Rightarrow> if i = c - 1 then pos else getRightThroughLineBreaks P (stop t))"
  have its: "iterationResults P this vs c i pos = ?t # iterationResults P this vs c (i + 1) ?pos'"
    by (subst iterationResults.simps) (use lt in \<open>simp add: Let_def\<close>)
  with Suc.prems(2) have tm: "is_Mov ?t" and rest: "\<forall>t \<in> set (iterationResults P this vs c (i + 1) ?pos'). is_Mov t"
    by auto
  then obtain t where t: "?t = Mov t" by (auto simp: is_Mov_def)
  show ?case
  proof (cases "i = c - 1")
    case True
    then have fin: "\<not> i + 1 < c" by simp
    have "execActionWithCountLoop P this vs c i pos (Mov r) =
            Mov (r\<lparr>failed := jsOr (failed r) (failed t), stop := stop t\<rparr>)"
      by (subst execActionWithCountLoop.simps) (use lt t i0 True fin in \<open>simp add: Let_def loop_done\<close>)
    moreover have "iterationResults P this vs c i pos = [Mov t]"
      using its t fin by (simp add: iterationResults_done)
    ultimately show ?thesis using lt by (simp add: jsOr_true)
  next
    case False
    then have lt': "i + 1 < c" using lt by simp
    have step: "execActionWithCountLoop P this vs c i pos (Mov r) =
            execActionWithCountLoop P this vs c (i + 1) (getRightThroughLineBreaks P (stop t))
              (Mov (r\<lparr>failed := jsOr (failed r) (failed t)\<rparr>))"
      by (subst execActionWithCountLoop.simps) (use lt t i0 False in \<open>simp add: Let_def\<close>)
    have pos': "?pos' = getRightThroughLineBreaks P (stop t)" using t False by simp
    have i1: "1 \<le> i + 1" using Suc.prems(1) by simp
    from Suc.hyps(1) [OF n i1, of "getRightThroughLineBreaks P (stop t)" "r\<lparr>failed := jsOr (failed r) (failed t)\<rparr>"] rest pos'
    obtain r' where r': "execActionWithCountLoop P this vs c (i + 1) (getRightThroughLineBreaks P (stop t)) (Mov (r\<lparr>failed := jsOr (failed r) (failed t)\<rparr>)) = Mov r'"
      "start r' = start r"
      "stop r' = stop (movOf (last (iterationResults P this vs c (i + 1) (getRightThroughLineBreaks P (stop t)))))"
      "(failed r' = Some True) = (jsOr (failed r) (failed t) = Some True \<or> (\<exists>t \<in> set (iterationResults P this vs c (i + 1) (getRightThroughLineBreaks P (stop t))). failed (movOf t) = Some True))"
      using lt' by auto
    have ne: "iterationResults P this vs c (i + 1) (getRightThroughLineBreaks P (stop t)) \<noteq> []"
      using iterationResults_length [of P this vs c "i + 1" "getRightThroughLineBreaks P (stop t)"] lt' by auto
    show ?thesis
      using step r' its t pos' lt ne by (auto simp: jsOr_true)
  qed
qed


text \<open>
  C5. When a movement runs the count loop with a count above \<open>1\<close> and every pass returns
  a Range, the loop returns a Range whose start is the start of the first pass (the
  movement's \<open>execAction\<close> at the original position), whose stop is the stop of the last
  pass, and whose \<open>failed\<close> flag is true exactly when the flag of some pass is true.
\<close>

theorem execActionWithCount_range_composition:
  assumes "1 < count'"
    and "its = iterationResults P this vimState (min count' 99999) 0 position"
    and "\<forall>t \<in> set its. is_Mov t"
  shows "\<exists>r. execActionWithCount P this position vimState count' = Mov r
           \<and> length its = nat (min count' 99999)
           \<and> hd its = execAction this position vimState
           \<and> start r = start (movOf (hd its))
           \<and> stop r = stop (movOf (last its))
           \<and> (failed r = Some True \<longleftrightarrow> (\<exists>t \<in> set its. failed (movOf t) = Some True))"
proof -
  let ?c = "min count' 99999"
  have c: "1 < ?c" using assms(1) by simp
  have clamp: "execActionWithCount P this position vimState count' =
      execActionWithCountLoop P this vimState ?c 0 position (Pos \<lparr>line = 0, character = 0\<rparr>)"
    using assms(1) by (simp add: execActionWithCount_def min_def)
  let ?t = "temporaryResultOf this vimState ?c 0 position"
  have cne: "?c - 1 \<noteq> 0" using c by linarith
  have t0: "?t = execAction this position vimState"
    using cne by (simp add: temporaryResultOf_def)
  let ?pos' = "(case ?t of Pos p \<Rightarrow> p
                | Mov t \<Rightarrow> if (0::int) = ?c - 1 then position
                           else getRightThroughLineBreaks P (stop t))"
  have its: "its = ?t # iterationResults P this vimState ?c (0 + 1) ?pos'"
    unfolding assms(2) by (subst iterationResults.simps) (use c in \<open>simp add: Let_def\<close>)
  with assms(3) have "is_Mov ?t" by simp
  then obtain t where t: "?t = Mov t" by (auto simp: is_Mov_def)
  let ?r0 = "\<lparr>start = start t, stop = \<lparr>line = 0, character = 0\<rparr>,
              failed = jsOr (Some False) (failed t), registerMode = None\<rparr>"
  let ?p1 = "getRightThroughLineBreaks P (stop t)"
  have pos': "?pos' = ?p1" using t cne by simp
  have step: "execActionWithCountLoop P this vimState ?c 0 position (Pos \<lparr>line = 0, character = 0\<rparr>)
      = execActionWithCountLoop P this vimState ?c 1 ?p1 (Mov ?r0)"
    by (subst execActionWithCountLoop.simps) (use c cne t in \<open>simp add: Let_def\<close>)
  have rest: "\<forall>t \<in> set (iterationResults P this vimState ?c 1 ?p1). is_Mov t"
    using assms(3) its pos' by simp
  from loop_later [of 1 P this vimState ?c ?p1 ?r0, OF _ rest]
  obtain r where r: "execActionWithCountLoop P this vimState ?c 1 ?p1 (Mov ?r0) = Mov r"
    "start r = start t"
    "stop r = stop (movOf (last (iterationResults P this vimState ?c 1 ?p1)))"
    "(failed r = Some True) = (jsOr (Some False) (failed t) = Some True \<or>
       (\<exists>t \<in> set (iterationResults P this vimState ?c 1 ?p1). failed (movOf t) = Some True))"
    using c by auto
  have ne: "iterationResults P this vimState ?c 1 ?p1 \<noteq> []"
    using iterationResults_length [of P this vimState ?c 1 ?p1] c by auto
  have len: "length its = nat ?c"
    unfolding assms(2) by (simp add: iterationResults_length)
  show ?thesis
    using clamp step r its t t0 pos' ne len by (auto simp: jsOr_true)
qed

lemmas methods_eval =
  documentMethods_def doc_getLineBegin_def doc_getLineEnd_def doc_getRightThroughLineBreaks_def
  doc_getDown_def lineLength_def getLineCount_def exampleDocument_def

theorem execActionWithCount_range_composition_witness:
  "\<exists>r. execActionWithCount (documentMethods exampleDocument)
          (MoveOutdent_movement (documentMethods exampleDocument))
          \<lparr>line = 0, character = 3\<rparr> exampleState 3 = Mov r
      \<and> start r = \<lparr>line = 0, character = 0\<rparr>
      \<and> stop r = \<lparr>line = 2, character = 3\<rparr>
      \<and> failed r \<noteq> Some True"
proof -
  let ?P = "documentMethods exampleDocument"
  let ?its = "iterationResults ?P (MoveOutdent_movement ?P) exampleState (min 3 99999) 0
                \<lparr>line = 0, character = 3\<rparr>"
  have its: "?its =
      [Mov \<lparr>start = \<lparr>line = 0, character = 0\<rparr>, stop = \<lparr>line = 0, character = 11\<rparr>,
            failed = None, registerMode = None\<rparr>,
       Mov \<lparr>start = \<lparr>line = 1, character = 0\<rparr>, stop = \<lparr>line = 1, character = 9\<rparr>,
            failed = None, registerMode = None\<rparr>,
       Mov \<lparr>start = \<lparr>line = 2, character = 0\<rparr>, stop = \<lparr>line = 2, character = 3\<rparr>,
            failed = None, registerMode = None\<rparr>]"
    by (simp add: iterationResults.simps temporaryResultOf_def MoveOutdent_movement_def
          MoveOutdent_execAction_def exampleState_def methods_eval)
  have movs: "\<forall>t \<in> set ?its. is_Mov t" unfolding its by simp
  from execActionWithCount_range_composition [OF _ refl movs] show ?thesis
    unfolding its by auto
qed


section \<open>Properties of the find, till and word movements\<close>

lemma documentMethods_findMethods: "findMethods doc (documentMethods doc)"
  by (simp add: findMethods_def documentMethods_def doc_find_def nthOccurrence_def)

text \<open>
  C9. When the target character occurs fewer times than the count asks for on the
  current line in the direction of the scan (after the cursor for \<open>f\<close> and \<open>t\<close>, before
  it for \<open>F\<close> and \<open>T\<close>; a count of \<open>0\<close> asks for one occurrence), the movement returns
  a Range with \<open>failed = true\<close> whose start and stop are the original position. The
  find and till methods of \<open>Position\<close> are any implementation that fails as the
  specification says.
\<close>

theorem find_till_failure:
  assumes "findMethods doc P" and "keyAt keysPressed' 1 = Some c"
  shows
    "(int (length (occurrencesAfter doc position c)) < countOr1 count' \<longrightarrow>
        MoveFindForward_execActionWithCount P keysPressed' position vimState count'
          = Mov \<lparr>start = position, stop = position, failed = Some True, registerMode = None\<rparr>
      \<and> MoveTilForward_execActionWithCount P keysPressed' position vimState count'
          = Mov \<lparr>start = position, stop = position, failed = Some True, registerMode = None\<rparr>)
   \<and> (int (length (occurrencesBefore doc position c)) < countOr1 count' \<longrightarrow>
        MoveFindBackward_execActionWithCount P keysPressed' position vimState count'
          = Mov \<lparr>start = position, stop = position, failed = Some True, registerMode = None\<rparr>
      \<and> MoveTilBackward_execActionWithCount P keysPressed' position vimState count'
          = Mov \<lparr>start = position, stop = position, failed = Some True, registerMode = None\<rparr>)"
  using assms
  by (simp add: findMethods_def MoveFindForward_execActionWithCount_def
        MoveTilForward_execActionWithCount_def MoveFindBackward_execActionWithCount_def
        MoveTilBackward_execActionWithCount_def failedAt_def Let_def)

theorem find_till_failure_witness:
  "MoveFindForward_execActionWithCount (documentMethods exampleDocument) [''f'', ''o'']
       \<lparr>line = 0, character = 0\<rparr> exampleState 3
     = Mov \<lparr>start = \<lparr>line = 0, character = 0\<rparr>, stop = \<lparr>line = 0, character = 0\<rparr>,
            failed = Some True, registerMode = None\<rparr>
   \<and> MoveTilBackward_execActionWithCount (documentMethods exampleDocument) [''T'', ''h'']
       \<lparr>line = 0, character = 0\<rparr> exampleState 0
     = Mov \<lparr>start = \<lparr>line = 0, character = 0\<rparr>, stop = \<lparr>line = 0, character = 0\<rparr>,
            failed = Some True, registerMode = None\<rparr>"
proof -
  have k1: "keyAt [''f'', ''o''] 1 = Some ''o''" and k2: "keyAt [''T'', ''h''] 1 = Some ''h''"
    by (simp_all add: keyAt_def)
  have o1: "int (length (occurrencesAfter exampleDocument \<lparr>line = 0, character = 0\<rparr> ''o''))
              < countOr1 3"
    by code_simp
  have o2: "int (length (occurrencesBefore exampleDocument \<lparr>line = 0, character = 0\<rparr> ''h''))
              < countOr1 0"
    by code_simp
  from find_till_failure [OF documentMethods_findMethods k1,
         where position = "\<lparr>line = 0, character = 0\<rparr>" and count' = 3
           and vimState = exampleState] o1
       find_till_failure [OF documentMethods_findMethods k2,
         where position = "\<lparr>line = 0, character = 0\<rparr>" and count' = 0
           and vimState = exampleState] o2
  show ?thesis by simp
qed

text \<open>
  C6. With the change operator pending, \<open>w\<close> and \<open>W\<close> return from \<open>execAction\<close> the
  position one to the right of the end of the current word (big word): the target of
  \<open>cE\<close> for \<open>W\<close>, and the target of \<open>ce\<close> for \<open>w\<close> whenever stepping right from the
  word's end is the next column. The code does not look at the character under the
  cursor, so this holds on a non-blank character in particular.
\<close>

theorem change_word_acts_like_change_to_word_end:
  assumes "operator (recordedState vimState) = Some ChangeOperator"
  shows "MoveWordBegin_execAction P position vimState = getRight P (getCurrentWordEnd P position)
       \<and> (getRight P (getCurrentWordEnd P position)
             = \<lparr>line = line (getCurrentWordEnd P position),
                character = character (getCurrentWordEnd P position) + 1\<rparr>
           \<longrightarrow> MoveWordBegin_execAction P position vimState
                 = MoveWordEnd_execActionForOperator P position vimState)
       \<and> MoveFullWordBegin_execAction P position vimState
           = getRight P (getCurrentBigWordEnd P position)
       \<and> MoveFullWordBegin_execAction P position vimState
           = MoveFullWordEnd_execActionForOperator P position vimState"
  using assms
  by (simp add: MoveWordBegin_execAction_def MoveFullWordBegin_execAction_def
        instanceofChangeOperator_def MoveWordEnd_execActionForOperator_def
        MoveFullWordEnd_execActionForOperator_def Let_def)

theorem change_word_acts_like_change_to_word_end_witness:
  "operator (recordedState (pendingOperator ChangeOperator exampleState)) = Some ChangeOperator
   \<and> MoveWordBegin_execAction (documentMethods exampleDocument) \<lparr>line = 0, character = 0\<rparr>
         (pendingOperator ChangeOperator exampleState) = \<lparr>line = 0, character = 5\<rparr>
   \<and> MoveWordEnd_execActionForOperator (documentMethods exampleDocument)
         \<lparr>line = 0, character = 0\<rparr> (pendingOperator ChangeOperator exampleState)
       = \<lparr>line = 0, character = 5\<rparr>"
proof -
  let ?P = "documentMethods exampleDocument"
  have op: "operator (recordedState (pendingOperator ChangeOperator exampleState))
              = Some ChangeOperator"
    by (simp add: pendingOperator_def)
  have e: "getCurrentWordEnd ?P \<lparr>line = 0, character = 0\<rparr> = \<lparr>line = 0, character = 4\<rparr>"
    by code_simp
  have r: "getRight ?P \<lparr>line = 0, character = 4\<rparr> = \<lparr>line = 0, character = 5\<rparr>"
    by code_simp
  from change_word_acts_like_change_to_word_end [OF op, of ?P "\<lparr>line = 0, character = 0\<rparr>"]
  show ?thesis using op e r by auto
qed

text \<open>
  C7. \<open>w\<close> as the target of an operator. The bare result is what \<open>execAction\<close> returns
  (word-right, unless the pending operator is the change operator). If the bare result
  is on a later line and is that line's first word, the movement returns the end of the
  current line. When that first rule does not apply and the bare result is at the end of
  its line, the result is the bare result moved right by one character.
\<close>

theorem word_motion_under_operator:
  "(\<not> instanceofChangeOperator (operator (recordedState vimState))
    \<longrightarrow> MoveWordBegin_execAction P position vimState = getWordRight P position)
   \<and> (line position < line (MoveWordBegin_execAction P position vimState)
      \<and> isFirstWordOfLine P (MoveWordBegin_execAction P position vimState)
    \<longrightarrow> MoveWordBegin_execActionForOperator P position vimState = getLineEnd P position)
   \<and> (\<not> (line (MoveWordBegin_execAction P position vimState) > line position + 1
           \<or> (line (MoveWordBegin_execAction P position vimState) = line position + 1
              \<and> isFirstWordOfLine P (MoveWordBegin_execAction P position vimState)))
      \<and> isLineEnd P (MoveWordBegin_execAction P position vimState)
    \<longrightarrow> MoveWordBegin_execActionForOperator P position vimState
          = \<lparr>line = line (MoveWordBegin_execAction P position vimState),
             character = character (MoveWordBegin_execAction P position vimState) + 1\<rparr>)"
  by (auto simp add: MoveWordBegin_execActionForOperator_def MoveWordBegin_execAction_def
        Let_def)

theorem word_motion_under_operator_witness:
  "MoveWordBegin_execAction (documentMethods exampleDocument) \<lparr>line = 0, character = 6\<rparr>
       (pendingOperator DeleteOperator exampleState) = \<lparr>line = 1, character = 2\<rparr>
   \<and> MoveWordBegin_execActionForOperator (documentMethods exampleDocument)
       \<lparr>line = 0, character = 6\<rparr> (pendingOperator DeleteOperator exampleState)
     = \<lparr>line = 0, character = 11\<rparr>
   \<and> MoveWordBegin_execAction (documentMethods exampleDocument) \<lparr>line = 2, character = 0\<rparr>
       (pendingOperator ChangeOperator exampleState) = \<lparr>line = 2, character = 3\<rparr>
   \<and> MoveWordBegin_execActionForOperator (documentMethods exampleDocument)
       \<lparr>line = 2, character = 0\<rparr> (pendingOperator ChangeOperator exampleState)
     = \<lparr>line = 2, character = 4\<rparr>"
proof -
  let ?P = "documentMethods exampleDocument"
  let ?d = "pendingOperator DeleteOperator exampleState"
  let ?c = "pendingOperator ChangeOperator exampleState"
  have b1: "MoveWordBegin_execAction ?P \<lparr>line = 0, character = 6\<rparr> ?d
              = \<lparr>line = 1, character = 2\<rparr>"
    by code_simp
  have f1: "isFirstWordOfLine ?P \<lparr>line = 1, character = 2\<rparr>"
    by code_simp
  have l1: "getLineEnd ?P \<lparr>line = 0, character = 6\<rparr> = \<lparr>line = 0, character = 11\<rparr>"
    by code_simp
  have b2: "MoveWordBegin_execAction ?P \<lparr>line = 2, character = 0\<rparr> ?c
              = \<lparr>line = 2, character = 3\<rparr>"
    by code_simp
  have e2: "isLineEnd ?P \<lparr>line = 2, character = 3\<rparr>"
    by code_simp
  from word_motion_under_operator
         [where position = "\<lparr>line = 0, character = 6\<rparr>" and P = ?P and vimState = ?d]
       word_motion_under_operator
         [where position = "\<lparr>line = 2, character = 0\<rparr>" and P = ?P and vimState = ?c]
  show ?thesis using b1 f1 l1 b2 e2 by simp
qed


section \<open>Properties of the delete and yank operators\<close>










lemma compareTo_bump:
  "compareTo a b \<le> 0 \<Longrightarrow> compareTo a \<lparr>line = line b, character = character b + 1\<rparr> < 0"
  by (auto simp: compareTo_def split: if_splits)

lemma compareTo_bump':
  "\<not> compareTo a b \<le> 0 \<Longrightarrow> compareTo b \<lparr>line = line a, character = character a + 1\<rparr> < 0"
  by (auto simp: compareTo_def split: if_splits)

text \<open>
  C8. The yank operator leaves the buffer as it was. The range it reads is the two
  positions in ascending order with the later one moved right by one character; the
  text of that range (with a newline appended in one case of Visual mode) goes to the
  register store. The cursor ends at its position before the command when the operator
  ran from Normal mode, and at the start of the ordered range otherwise; the mode ends
  as Normal.
\<close>

theorem yank_frame_and_cursor:
  "document (snd (YankOperator_run E vimState start' end' editor)) = document editor
   \<and> compareTo (fst (yankRange start' end')) (snd (yankRange start' end')) < 0
   \<and> (compareTo start' end' \<le> 0 \<longrightarrow>
        yankRange start' end'
          = (start', \<lparr>line = line end', character = character end' + 1\<rparr>))
   \<and> (compareTo start' end' > 0 \<longrightarrow>
        yankRange start' end'
          = (end', \<lparr>line = line start', character = character start' + 1\<rparr>))
   \<and> (\<exists>suffix \<in> {[], [CHR 0x0A]}.
        registers (snd (YankOperator_run E vimState start' end' editor))
          = registerPut E (getText E (document editor) (yankRange start' end') @ suffix)
              vimState (registers editor))
   \<and> cursorPosition (fst (YankOperator_run E vimState start' end' editor))
       = (if currentMode vimState = Normal
          then cursorPositionJustBeforeAnythingHappened vimState
          else fst (yankRange start' end'))
   \<and> currentMode (fst (YankOperator_run E vimState start' end' editor)) = Normal"
proof -
  have asc: "compareTo (fst (yankRange start' end')) (snd (yankRange start' end')) < 0"
    using compareTo_bump [of start' end'] compareTo_bump' [of start' end']
    by (simp add: yankRange_def)
  show ?thesis
    using asc
    by (simp add: YankOperator_run_def yankRange_def Let_def split_def)
qed

theorem yank_frame_and_cursor_witness:
  "document (snd (YankOperator_run exampleOps exampleState \<lparr>line = 0, character = 6\<rparr>
       \<lparr>line = 0, character = 10\<rparr> \<lparr>document = exampleDocument, registers = []\<rparr>))
     = exampleDocument
   \<and> yankRange \<lparr>line = 0, character = 6\<rparr> \<lparr>line = 0, character = 10\<rparr>
     = (\<lparr>line = 0, character = 6\<rparr>, \<lparr>line = 0, character = 11\<rparr>)
   \<and> cursorPosition (fst (YankOperator_run exampleOps exampleState \<lparr>line = 0, character = 6\<rparr>
       \<lparr>line = 0, character = 10\<rparr> \<lparr>document = exampleDocument, registers = []\<rparr>))
     = \<lparr>line = 0, character = 0\<rparr>
   \<and> yankRange \<lparr>line = 0, character = 8\<rparr> \<lparr>line = 0, character = 6\<rparr>
     = (\<lparr>line = 0, character = 6\<rparr>, \<lparr>line = 0, character = 9\<rparr>)
   \<and> cursorPosition (fst (YankOperator_run exampleOps visualState \<lparr>line = 0, character = 8\<rparr>
       \<lparr>line = 0, character = 6\<rparr> \<lparr>document = exampleDocument, registers = []\<rparr>))
     = \<lparr>line = 0, character = 6\<rparr>"
proof -
  have c1: "compareTo \<lparr>line = 0, character = 6\<rparr> \<lparr>line = 0, character = 10\<rparr> \<le> 0"
    and c2: "compareTo \<lparr>line = 0, character = 8\<rparr> \<lparr>line = 0, character = 6\<rparr> > 0"
    by (simp_all add: compareTo_def)
  have m: "currentMode exampleState = Normal" "currentMode visualState = Visual"
    "cursorPositionJustBeforeAnythingHappened exampleState = \<lparr>line = 0, character = 0\<rparr>"
    by (simp_all add: exampleState_def visualState_def)
  from yank_frame_and_cursor [of exampleOps exampleState "\<lparr>line = 0, character = 6\<rparr>"
         "\<lparr>line = 0, character = 10\<rparr>" "\<lparr>document = exampleDocument, registers = []\<rparr>"]
       yank_frame_and_cursor [of exampleOps visualState "\<lparr>line = 0, character = 8\<rparr>"
         "\<lparr>line = 0, character = 6\<rparr>" "\<lparr>document = exampleDocument, registers = []\<rparr>"]
  show ?thesis using c1 c2 m by auto
qed


end
